theory Spec2Isabelle
  imports Main
begin

section \<open>Data model\<close>

text \<open>
  The notebook \<^verbatim>\<open>tabular_data_examples.ipynb\<close> is a linear sequence of cells. Two of
  them hold logic of their own: the loop that extracts the table of a DOCX document
  and the function \<^verbatim>\<open>validate\<close>. Both are embedded here, together with the cell
  that validates a document against its internal DTD.
\<close>

subsection \<open>Python exceptions\<close>

datatype error = TypeError | OSError | XMLSyntaxError | XMLSchemaParseError

subsection \<open>The python-docx objects the loop reads\<close>

text \<open>
  The loop reads \<^verbatim>\<open>table.rows\<close>, \<^verbatim>\<open>row.cells\<close> and \<^verbatim>\<open>cell.text\<close> and nothing
  else of the document, so a cell is its text, a row its cells, a table its rows.
\<close>

datatype cell = Cell (cell_text: string)

datatype row = Row (cells: "cell list")

datatype table = Table (rows: "row list")

subsection \<open>Python dictionaries\<close>

text \<open>
  A Python \<^verbatim>\<open>dict\<close> keeps its keys in insertion order. Storing under a key that is
  already present replaces the value and leaves the key where it is; a new key goes
  to the end. An association list with distinct keys has exactly this behaviour.
\<close>

type_synonym ('k, 'v) pydict = "('k \<times> 'v) list"

fun dict_setitem :: "'k \<Rightarrow> 'v \<Rightarrow> ('k, 'v) pydict \<Rightarrow> ('k, 'v) pydict" where
  "dict_setitem k v [] = [(k, v)]"
| "dict_setitem k v ((k', v') # d) =
     (if k' = k then (k, v) # d else (k', v') # dict_setitem k v d)"

text \<open>\<^verbatim>\<open>dict(pairs)\<close>: the pairs are stored one after the other, starting from \<^verbatim>\<open>{}\<close>.\<close>

fun dict_update :: "('k \<times> 'v) list \<Rightarrow> ('k, 'v) pydict \<Rightarrow> ('k, 'v) pydict" where
  "dict_update [] d = d"
| "dict_update ((k, v) # ps) d = dict_update ps (dict_setitem k v d)"

definition dict :: "('k \<times> 'v) list \<Rightarrow> ('k, 'v) pydict" where
  "dict ps = dict_update ps []"

definition dict_keys :: "('k, 'v) pydict \<Rightarrow> 'k list" where
  "dict_keys d = map fst d"

section \<open>Extraction of the DOCX table\<close>

text \<open>
  \<^verbatim>\<open>
  data = []
  keys = None
  for i, row in enumerate(table.rows):
      text = (cell.text for cell in row.cells)
      if i == 0:
          keys = tuple(text)
          continue
      row_data = dict(zip(keys, text))
      data.append(row_data)
  \<close>
  The state of the loop is the pair of \<^verbatim>\<open>keys\<close> and \<^verbatim>\<open>data\<close>. The generator
  \<^verbatim>\<open>text\<close> is consumed once in either branch, so it is the list of the row's cell
  texts. \<^verbatim>\<open>zip\<close> of \<^verbatim>\<open>None\<close> raises \<^verbatim>\<open>TypeError\<close>. The list \<^verbatim>\<open>data\<close> is the
  result; the cell then hands it to \<^verbatim>\<open>pd.DataFrame\<close>, one row per dictionary.
\<close>

record extraction =
  keys :: "string list option"
  data :: "(string, string) pydict list"

definition loop_body :: "nat \<times> row \<Rightarrow> extraction \<Rightarrow> error + extraction" where
  "loop_body ir s =
     (case ir of (i, row) \<Rightarrow>
        let text = map cell_text (cells row) in
        if i = 0 then Inr (s\<lparr>keys := Some text\<rparr>)
        else (case keys s of
                None \<Rightarrow> Inl TypeError
              | Some ks \<Rightarrow> Inr (s\<lparr>data := data s @ [dict (zip ks text)]\<rparr>)))"

fun for_loop :: "(nat \<times> row) list \<Rightarrow> extraction \<Rightarrow> error + extraction" where
  "for_loop [] s = Inr s"
| "for_loop (ir # irs) s =
     (case loop_body ir s of Inl e \<Rightarrow> Inl e | Inr s' \<Rightarrow> for_loop irs s')"

definition extract_table :: "table \<Rightarrow> error + (string, string) pydict list" where
  "extract_table t =
     (case for_loop (List.enumerate 0 (rows t)) \<lparr>keys = None, data = []\<rparr> of
        Inl e \<Rightarrow> Inl e
      | Inr s \<Rightarrow> Inr (data s))"

text \<open>The record that the loop builds for one data row under a given header.\<close>

definition row_data :: "string list \<Rightarrow> row \<Rightarrow> (string, string) pydict" where
  "row_data ks row = dict (zip ks (map cell_text (cells row)))"

section \<open>Validation of XML documents\<close>

subsection \<open>The lxml calls\<close>

text \<open>
  The function \<^verbatim>\<open>validate\<close> calls into \<^verbatim>\<open>lxml.etree\<close> and never looks inside a
  document or a schema, so both are type parameters and the library is a record of
  the entry points the function uses:
  \<^item> \<^verbatim>\<open>etree.parse(path)\<close> returns the parsed document or raises (a file that cannot
    be read, a document that is not well-formed);
  \<^item> \<^verbatim>\<open>etree.XMLSchema(doc)\<close> compiles a schema document or raises;
  \<^item> \<^verbatim>\<open>xmlschema.validate(doc)\<close> is the verdict of the compiled schema on a document.
\<close>

record ('doc, 'schema) etree =
  parse :: "string \<Rightarrow> error + 'doc"
  XMLSchema :: "'doc \<Rightarrow> error + 'schema"
  schema_validate :: "'schema \<Rightarrow> 'doc \<Rightarrow> bool"

subsection \<open>The function validate\<close>

text \<open>
  \<^verbatim>\<open>
  def validate(xml_path: str, xsd_path: str) -> bool:
      xmlschema_doc = etree.parse(xsd_path)
      xmlschema = etree.XMLSchema(xmlschema_doc)
      xml_doc = etree.parse(xml_path)
      result = xmlschema.validate(xml_doc)
      return result
  \<close>
  The statements run in this order, and the first one that raises ends the call.
\<close>

definition validate :: "('doc, 'schema) etree \<Rightarrow> string \<Rightarrow> string \<Rightarrow> error + bool" where
  "validate lib xml_path xsd_path =
     (case parse lib xsd_path of
        Inl e \<Rightarrow> Inl e
      | Inr xmlschema_doc \<Rightarrow>
          (case XMLSchema lib xmlschema_doc of
             Inl e \<Rightarrow> Inl e
           | Inr xmlschema \<Rightarrow>
               (case parse lib xml_path of
                  Inl e \<Rightarrow> Inl e
                | Inr xml_doc \<Rightarrow>
                    let result = schema_validate lib xmlschema xml_doc in Inr result)))"

text \<open>
  The cell that calls it prints one of two words:
  \<^verbatim>\<open>
  if validate(xml, xsd): print('Valid!')
  else: print('Not valid!')
  \<close>
\<close>

definition validate_cell :: "('doc, 'schema) etree \<Rightarrow> string \<Rightarrow> string \<Rightarrow> error + string" where
  "validate_cell lib xml_path xsd_path =
     (case validate lib xml_path xsd_path of
        Inl e \<Rightarrow> Inl e
      | Inr b \<Rightarrow> Inr (if b then ''Valid!'' else ''Not valid!''))"

subsection \<open>Validation against the internal DTD\<close>

text \<open>
  \<^verbatim>\<open>
  # The validity of the XML file is tested against the internal DTD.
  # If the verification is successful (as in this case), there is no output,
  # otherwise the parser returns an error message.
  parser = etree.XMLParser(dtd_validation=True)
  tree = etree.parse(path, parser)
  \<close>
\<close>

text \<open>
  The objects that the two validators hand back: \<^verbatim>\<open>validate\<close> returns a
  \<^verbatim>\<open>bool\<close>, \<^verbatim>\<open>etree.parse\<close> an element tree.
\<close>

datatype element = Element (tag: string) (children: "element list")

datatype pyobject = Bool bool | ElementTree element

text \<open>
  A file that can be read and is well-formed holds a document: its element tree,
  and whether that tree satisfies the DTD the document carries. The answer of the
  DTD validator is part of the input; how the validator finds it is not described.
  A path that cannot be read, or whose content is not well-formed, gives the error.
\<close>

record document =
  root :: element
  satisfies_dtd :: bool

type_synonym files = "string \<Rightarrow> error + document"

text \<open>A parser object carries the option it was made with.\<close>

record XMLParser =
  dtd_validation :: bool

text \<open>
  Modelled from the spec: \<^verbatim>\<open>etree.parse(source, parser)\<close> of lxml, which the cell
  calls and whose code is not part of the repository. Section 4.1 of the spec has an
  adapter surface the library's error unchanged for a malformed file and for a schema
  violation at parse time, and section 7 has a DTD validation failure either reported
  as a verdict or surfaced unchanged from the library. The comment of the cell says
  which of the two: no output when the verification succeeds, the parser's error
  otherwise. So a parse
  with \<^verbatim>\<open>dtd_validation=True\<close> returns the tree of a document that satisfies its DTD
  and raises for one that does not; a parser made without the option does not
  consult the DTD.
\<close>

definition etree_parse :: "files \<Rightarrow> XMLParser \<Rightarrow> string \<Rightarrow> error + pyobject" where
  "etree_parse fs parser source =
     (case fs source of
        Inl e \<Rightarrow> Inl e
      | Inr d \<Rightarrow>
          if dtd_validation parser \<and> \<not> satisfies_dtd d then Inl XMLSyntaxError
          else Inr (ElementTree (root d)))"

text \<open>
  The cell has no \<^verbatim>\<open>print\<close> and ends in an assignment, so it displays nothing.
  What a run leaves to observe is the text it printed and the object bound to
  \<^verbatim>\<open>tree\<close>, or else the exception that ended it.
\<close>

record cell_run =
  stdout :: "string list"
  tree :: pyobject

definition dtd_cell :: "files \<Rightarrow> string \<Rightarrow> error + cell_run" where
  "dtd_cell fs path =
     (let parser = \<lparr>dtd_validation = True\<rparr> in
      case etree_parse fs parser path of
        Inl e \<Rightarrow> Inl e
      | Inr t \<Rightarrow> Inr \<lparr>stdout = [], tree = t\<rparr>)"

text \<open>
  Two files for concrete runs, with the same element tree: the first document
  satisfies the DTD it carries, the second carries a DTD that its tree violates.
\<close>

definition example_files :: files where
  "example_files path =
     (if path = ''dataset_snippet_with_dtd.xml''
        then Inr \<lparr>root = Element ''data'' [Element ''row'' [Element ''key'' []]],
                  satisfies_dtd = True\<rparr>
      else if path = ''snippet_violating_its_dtd.xml''
        then Inr \<lparr>root = Element ''data'' [Element ''row'' [Element ''key'' []]],
                  satisfies_dtd = False\<rparr>
      else Inl OSError)"

section \<open>Properties of the dictionary model\<close>

lemma dict_setitem_keys:
  "fst ` set (dict_setitem k v d) = insert k (fst ` set d)"
  by (induction k v d rule: dict_setitem.induct) auto

lemma dict_setitem_distinct:
  "distinct (map fst d) \<Longrightarrow> distinct (map fst (dict_setitem k v d))"
  by (induction k v d rule: dict_setitem.induct) (auto simp: dict_setitem_keys)

lemma dict_setitem_lookup:
  "map_of (dict_setitem k v d) = (map_of d)(k \<mapsto> v)"
  by (induction k v d rule: dict_setitem.induct) auto

lemma dict_update_keys:
  "fst ` set (dict_update ps d) = fst ` set d \<union> fst ` set ps"
  by (induction ps d rule: dict_update.induct) (auto simp: dict_setitem_keys)

lemma dict_update_distinct:
  "distinct (map fst d) \<Longrightarrow> distinct (map fst (dict_update ps d))"
  by (induction ps d rule: dict_update.induct) (auto simp: dict_setitem_distinct)

lemma dict_update_lookup:
  "map_of (dict_update ps d) = map_of d ++ map_of (rev ps)"
proof (induction ps d rule: dict_update.induct)
  case (1 d)
  then show ?case by simp
next
  case (2 k v ps d)
  have "map_of (dict_setitem k v d) ++ map_of (rev ps)
          = map_of d ++ (map_of [(k, v)] ++ map_of (rev ps))"
    by (simp add: dict_setitem_lookup fun_eq_iff map_add_def split: option.splits)
  with 2 show ?case by simp
qed

text \<open>No key occurs twice, and of two pairs with the same key the later one wins.\<close>

lemma dict_keys_distinct: "distinct (dict_keys (dict ps))"
  by (simp add: dict_def dict_keys_def dict_update_distinct)

lemma dict_lookup_last_wins: "map_of (dict ps) = map_of (rev ps)"
  by (simp add: dict_def dict_update_lookup)

lemma dict_keys_set: "set (dict_keys (dict ps)) = fst ` set ps"
  by (simp add: dict_def dict_keys_def dict_update_keys)

lemma zip_drops_extra: "zip ks xs = zip ks (take (length ks) xs)"
proof (induction ks arbitrary: xs)
  case Nil
  then show ?case by simp
next
  case (Cons k ks)
  then show ?case by (cases xs) simp_all
qed

lemma zip_keys_leading: "map fst (zip ks xs) = take (length xs) ks"
proof (induction ks arbitrary: xs)
  case Nil
  then show ?case by simp
next
  case (Cons k ks)
  then show ?case by (cases xs) simp_all
qed

lemma row_data_keys:
  "set (dict_keys (row_data ks r)) = set (take (length (cells r)) ks)"
proof -
  have "fst ` set (zip ks (map cell_text (cells r)))
          = set (map fst (zip ks (map cell_text (cells r))))"
    by simp
  also have "\<dots> = set (take (length (cells r)) ks)"
    by (simp only: zip_keys_leading length_map)
  finally show ?thesis
    by (simp add: row_data_def dict_keys_set)
qed

section \<open>Properties of the extraction loop\<close>

lemma loop_body_header:
  "loop_body (0, r) s = Inr (s\<lparr>keys := Some (map cell_text (cells r))\<rparr>)"
  by (simp add: loop_body_def)

lemma loop_body_data:
  "0 < i \<Longrightarrow> keys s = Some ks \<Longrightarrow>
     loop_body (i, r) s = Inr (s\<lparr>data := data s @ [row_data ks r]\<rparr>)"
  by (simp add: loop_body_def row_data_def)

lemma for_loop_data_rows:
  "0 < n \<Longrightarrow> keys s = Some ks \<Longrightarrow>
     for_loop (List.enumerate n rs) s =
       Inr (s\<lparr>data := data s @ map (row_data ks) rs\<rparr>)"
proof (induction rs arbitrary: n s)
  case Nil
  then show ?case by simp
next
  case (Cons r rs)
  let ?s' = "s\<lparr>data := data s @ [row_data ks r]\<rparr>"
  have step: "loop_body (n, r) s = Inr ?s'"
    using Cons.prems by (rule loop_body_data)
  have "for_loop (List.enumerate (Suc n) rs) ?s' =
          Inr (?s'\<lparr>data := data ?s' @ map (row_data ks) rs\<rparr>)"
    using Cons.prems by (intro Cons.IH) simp_all
  with step show ?case by simp
qed

lemma extract_table_empty: "extract_table (Table []) = Inr []"
  by (simp add: extract_table_def)

lemma extract_table_rows:
  "extract_table (Table (hdr # rest)) =
     Inr (map (row_data (map cell_text (cells hdr))) rest)"
proof -
  let ?s = "\<lparr>keys = Some (map cell_text (cells hdr)), data = []\<rparr>"
  have "for_loop (List.enumerate (Suc 0) rest) ?s =
          Inr (?s\<lparr>data := data ?s @ map (row_data (map cell_text (cells hdr))) rest\<rparr>)"
    by (rule for_loop_data_rows) simp_all
  then show ?thesis
    by (simp add: extract_table_def loop_body_header)
qed

section \<open>Claims about the extracted table\<close>

text \<open>
  C7. The first row of the table is the header row: its cell texts are the keys.
  Every later row is zipped against these keys and gives exactly one record, in the
  order of the rows, and the loop never raises. A table with \<open>R\<close> rows, the
  header among them, therefore gives \<open>R - 1\<close> records.
\<close>

theorem docx_first_row_is_header:
  assumes "rows t = hdr # rest"
  shows "\<exists>recs. extract_table t = Inr recs
           \<and> recs = map (\<lambda>r. dict (zip (map cell_text (cells hdr)) (map cell_text (cells r)))) rest
           \<and> int (length recs) = int (length (rows t)) - 1"
proof -
  have t: "t = Table (hdr # rest)"
    using assms by (cases t) simp
  have "extract_table t = Inr (map (row_data (map cell_text (cells hdr))) rest)"
    unfolding t by (rule extract_table_rows)
  moreover have "row_data (map cell_text (cells hdr)) =
      (\<lambda>r. dict (zip (map cell_text (cells hdr)) (map cell_text (cells r))))"
    by (rule ext) (simp add: row_data_def)
  ultimately show ?thesis
    using assms by simp
qed

theorem docx_first_row_is_header_witness:
  "rows (Table [Row [Cell ''id'', Cell ''name''],
                Row [Cell ''1'', Cell ''Ara''],
                Row [Cell ''2'', Cell ''Pica'']])
     = Row [Cell ''id'', Cell ''name'']
       # [Row [Cell ''1'', Cell ''Ara''], Row [Cell ''2'', Cell ''Pica'']]
   \<and> extract_table (Table [Row [Cell ''id'', Cell ''name''],
                          Row [Cell ''1'', Cell ''Ara''],
                          Row [Cell ''2'', Cell ''Pica'']])
     = Inr [[(''id'', ''1''), (''name'', ''Ara'')], [(''id'', ''2''), (''name'', ''Pica'')]]"
  using docx_first_row_is_header
    [of "Table [Row [Cell ''id'', Cell ''name''],
                Row [Cell ''1'', Cell ''Ara''],
                Row [Cell ''2'', Cell ''Pica'']]"
        "Row [Cell ''id'', Cell ''name'']"
        "[Row [Cell ''1'', Cell ''Ara''], Row [Cell ''2'', Cell ''Pica'']]"]
  by (simp add: dict_def)

text \<open>
  C10, as stated, at a header that repeats a text: the header is \<open>a, b, a\<close> and the
  data row has two cells. The third header cell is a trailing one, and its text
  \<open>a\<close> is a key of the record all the same.
\<close>

theorem docx_trailing_key_counterexample:
  "extract_table (Table [Row [Cell ''a'', Cell ''b'', Cell ''a''], Row [Cell ''1'', Cell ''2'']])
     = Inr [[(''a'', ''1''), (''b'', ''2'')]]
   \<and> length (cells (Row [Cell ''1'', Cell ''2''])) < length (cells (Row [Cell ''a'', Cell ''b'', Cell ''a'']))
   \<and> ''a'' \<in> set (drop (length (cells (Row [Cell ''1'', Cell ''2''])))
                       (map cell_text (cells (Row [Cell ''a'', Cell ''b'', Cell ''a'']))))
   \<and> ''a'' \<in> set (dict_keys [(''a'', ''1''), (''b'', ''2'')])"
  by (simp add: extract_table_def loop_body_def dict_def dict_keys_def)

text \<open>
  C10, amended. For a table with a header row, the record of the \<open>j\<close>-th data row
  is \<open>dict(zip(keys, text))\<close>. Its keys are header texts. Cells beyond the length of
  the header do not matter. Its keys are exactly the texts of the leading header
  cells, as many as the row has cells; the text of a trailing header cell is missing
  from the record unless a leading header cell has the same text.
\<close>

theorem docx_record_keys:
  assumes "rows t = hdr # rest"
    and "extract_table t = Inr recs"
    and "j < length recs"
  shows "length recs = length rest
     \<and> recs ! j = dict (zip (map cell_text (cells hdr)) (map cell_text (cells (rest ! j))))
     \<and> recs ! j = dict (zip (map cell_text (cells hdr))
                     (take (length (cells hdr)) (map cell_text (cells (rest ! j)))))
     \<and> set (dict_keys (recs ! j)) \<subseteq> set (map cell_text (cells hdr))
     \<and> set (dict_keys (recs ! j))
         = set (take (length (cells (rest ! j))) (map cell_text (cells hdr)))
     \<and> (\<forall>k \<in> set (drop (length (cells (rest ! j))) (map cell_text (cells hdr))).
           k \<notin> set (take (length (cells (rest ! j))) (map cell_text (cells hdr)))
             \<longrightarrow> k \<notin> set (dict_keys (recs ! j)))"
proof -
  let ?ks = "map cell_text (cells hdr)"
  let ?r = "rest ! j"
  have t: "t = Table (hdr # rest)"
    using assms(1) by (cases t) simp
  have recs: "recs = map (row_data ?ks) rest"
    using assms(2) unfolding t by (simp add: extract_table_rows)
  then have len: "length recs = length rest"
    by simp
  have j: "j < length rest"
    using assms(3) len by simp
  have rec: "recs ! j = row_data ?ks ?r"
    using recs j by simp
  have zipped: "recs ! j = dict (zip ?ks (map cell_text (cells ?r)))"
    using rec by (simp add: row_data_def)
  have dropped: "recs ! j = dict (zip ?ks (take (length (cells hdr)) (map cell_text (cells ?r))))"
    using zipped zip_drops_extra [of ?ks "map cell_text (cells ?r)"] by simp
  have keys_eq: "set (dict_keys (recs ! j)) = set (take (length (cells ?r)) ?ks)"
    using rec by (simp add: row_data_keys)
  have keys_sub: "set (dict_keys (recs ! j)) \<subseteq> set ?ks"
    unfolding keys_eq by (rule set_take_subset)
  show ?thesis
    using len zipped dropped keys_sub keys_eq by simp
qed

theorem docx_record_keys_witness:
  "rows (Table [Row [Cell ''a'', Cell ''b'', Cell ''c''],
                Row [Cell ''1'', Cell ''2'', Cell ''3'', Cell ''4''],
                Row [Cell ''5'']])
     = Row [Cell ''a'', Cell ''b'', Cell ''c'']
       # [Row [Cell ''1'', Cell ''2'', Cell ''3'', Cell ''4''], Row [Cell ''5'']]
   \<and> extract_table (Table [Row [Cell ''a'', Cell ''b'', Cell ''c''],
                          Row [Cell ''1'', Cell ''2'', Cell ''3'', Cell ''4''],
                          Row [Cell ''5'']])
     = Inr [[(''a'', ''1''), (''b'', ''2''), (''c'', ''3'')], [(''a'', ''5'')]]
   \<and> (1::nat) < length [[(''a'', ''1''), (''b'', ''2''), (''c'', ''3'')], [(''a'', ''5'')]]
   \<and> set (dict_keys ([[(''a'', ''1''), (''b'', ''2''), (''c'', ''3'')], [(''a'', ''5'')]] ! 1))
       = {''a''}
   \<and> ''b'' \<notin> set (dict_keys ([[(''a'', ''1''), (''b'', ''2''), (''c'', ''3'')], [(''a'', ''5'')]] ! 1))"
proof -
  let ?t = "Table [Row [Cell ''a'', Cell ''b'', Cell ''c''],
                   Row [Cell ''1'', Cell ''2'', Cell ''3'', Cell ''4''],
                   Row [Cell ''5'']]"
  let ?recs = "[[(''a'', ''1''), (''b'', ''2''), (''c'', ''3'')], [(''a'', ''5'')]]"
  have r: "rows ?t = Row [Cell ''a'', Cell ''b'', Cell ''c'']
             # [Row [Cell ''1'', Cell ''2'', Cell ''3'', Cell ''4''], Row [Cell ''5'']]"
    by simp
  have e: "extract_table ?t = Inr ?recs"
    by (simp add: extract_table_def loop_body_def dict_def)
  have l: "(1::nat) < length ?recs"
    by simp
  show ?thesis
    using r e l docx_record_keys [OF r e l] by simp
qed

section \<open>Properties of the validators\<close>

text \<open>An exception of a library call leaves \<^verbatim>\<open>validate\<close> unchanged, in the order of the calls.\<close>

lemma validate_schema_file_error:
  "parse lib xsd_path = Inl e \<Longrightarrow> validate lib xml_path xsd_path = Inl e"
  by (simp add: validate_def)

lemma validate_schema_error:
  "parse lib xsd_path = Inr xmlschema_doc \<Longrightarrow> XMLSchema lib xmlschema_doc = Inl e \<Longrightarrow>
     validate lib xml_path xsd_path = Inl e"
  by (simp add: validate_def)

lemma validate_document_error:
  "parse lib xsd_path = Inr xmlschema_doc \<Longrightarrow> XMLSchema lib xmlschema_doc = Inr xmlschema \<Longrightarrow>
     parse lib xml_path = Inl e \<Longrightarrow> validate lib xml_path xsd_path = Inl e"
  by (simp add: validate_def)

lemma validate_cell_words:
  "validate lib xml_path xsd_path = Inr b \<Longrightarrow>
     validate_cell lib xml_path xsd_path = Inr (if b then ''Valid!'' else ''Not valid!'')"
  by (simp add: validate_cell_def)

text \<open>
  With a schema file that parses and compiles and a document that parses,
  \<^verbatim>\<open>validate\<close> hands back the verdict of the compiled schema, whatever it is.
\<close>

lemma validate_forwards_verdict:
  "parse lib xsd_path = Inr xmlschema_doc \<Longrightarrow> XMLSchema lib xmlschema_doc = Inr xmlschema \<Longrightarrow>
     parse lib xml_path = Inr xml_doc \<Longrightarrow>
     validate lib xml_path xsd_path = Inr (schema_validate lib xmlschema xml_doc)"
  by (simp add: validate_def)

text \<open>The parse of the DTD cell, case by case.\<close>

lemma etree_parse_plain:
  "fs source = Inr d \<Longrightarrow>
     etree_parse fs \<lparr>dtd_validation = False\<rparr> source = Inr (ElementTree (root d))"
  by (simp add: etree_parse_def)

lemma etree_parse_file_error:
  "fs source = Inl e \<Longrightarrow> etree_parse fs parser source = Inl e"
  by (simp add: etree_parse_def)

lemma dtd_cell_file_error:
  "fs path = Inl e \<Longrightarrow> dtd_cell fs path = Inl e"
  by (simp add: dtd_cell_def etree_parse_def)

lemma dtd_cell_valid:
  "fs path = Inr d \<Longrightarrow> satisfies_dtd d \<Longrightarrow>
     dtd_cell fs path = Inr \<lparr>stdout = [], tree = ElementTree (root d)\<rparr>"
  by (simp add: dtd_cell_def etree_parse_def)

lemma dtd_cell_invalid:
  "fs path = Inr d \<Longrightarrow> \<not> satisfies_dtd d \<Longrightarrow> dtd_cell fs path = Inl XMLSyntaxError"
  by (simp add: dtd_cell_def etree_parse_def)

section \<open>Claims about the validators\<close>

text \<open>
  C6, as stated, at a document that parses and violates the DTD it carries: the
  run of the cell is no verdict, the call raises the parser's error.
\<close>

theorem dtd_cell_raises_counterexample:
  "example_files ''snippet_violating_its_dtd.xml''
     = Inr \<lparr>root = Element ''data'' [Element ''row'' [Element ''key'' []]], satisfies_dtd = False\<rparr>
   \<and> dtd_cell example_files ''snippet_violating_its_dtd.xml'' = Inl XMLSyntaxError"
  by (simp add: dtd_cell_def etree_parse_def example_files_def)

text \<open>
  C6, amended. The variant that uses the schema embedded in the document returns
  no boolean verdict. For every input document that parses, the call returns the
  parsed element tree and the cell prints nothing when the document satisfies its
  internal DTD, and the call raises the parser's error when it does not: the
  document is valid exactly when the run ends without an exception.
\<close>

theorem dtd_cell_reports_by_raising:
  assumes "fs path = Inr d"
  shows "(satisfies_dtd d \<longrightarrow>
            dtd_cell fs path = Inr \<lparr>stdout = [], tree = ElementTree (root d)\<rparr>)
     \<and> (\<not> satisfies_dtd d \<longrightarrow> dtd_cell fs path = Inl XMLSyntaxError)
     \<and> (satisfies_dtd d \<longleftrightarrow> (\<exists>r. dtd_cell fs path = Inr r))
     \<and> (\<forall>r. dtd_cell fs path = Inr r \<longrightarrow> stdout r = [] \<and> (\<forall>b. tree r \<noteq> Bool b))"
proof (cases "satisfies_dtd d")
  case True
  then have "dtd_cell fs path = Inr \<lparr>stdout = [], tree = ElementTree (root d)\<rparr>"
    using assms by (simp add: dtd_cell_valid)
  with True show ?thesis by auto
next
  case False
  then have "dtd_cell fs path = Inl XMLSyntaxError"
    using assms by (simp add: dtd_cell_invalid)
  with False show ?thesis by simp
qed

theorem dtd_cell_reports_by_raising_witness:
  "example_files ''dataset_snippet_with_dtd.xml''
     = Inr \<lparr>root = Element ''data'' [Element ''row'' [Element ''key'' []]], satisfies_dtd = True\<rparr>
   \<and> dtd_cell example_files ''dataset_snippet_with_dtd.xml''
     = Inr \<lparr>stdout = [], tree = ElementTree (Element ''data'' [Element ''row'' [Element ''key'' []]])\<rparr>"
proof -
  let ?d = "\<lparr>root = Element ''data'' [Element ''row'' [Element ''key'' []]], satisfies_dtd = True\<rparr>"
  have readable: "example_files ''dataset_snippet_with_dtd.xml'' = Inr ?d"
    by (simp add: example_files_def)
  have "satisfies_dtd ?d \<longrightarrow>
          dtd_cell example_files ''dataset_snippet_with_dtd.xml''
            = Inr \<lparr>stdout = [], tree = ElementTree (root ?d)\<rparr>"
    using dtd_cell_reports_by_raising
        [of example_files "''dataset_snippet_with_dtd.xml''" ?d, OF readable]
    by (rule conjunct1)
  with readable show ?thesis
    by simp
qed

end
